theory Spec2Isabelle
  imports Complex_Main
begin

section \<open>Strings\<close>

text \<open>
  A string is a list of characters, and a character is a code point below 256. On these
  \<open>lower\<close> is Python's \<open>str.lower\<close>: it folds the letters A to Z and the capital letters
  from 192 to 222 other than the multiplication sign 215, and leaves every other character
  alone. \<open>strip\<close> is \<open>str.strip\<close>: the white space it removes is the tab, line feed,
  vertical tab, form feed and carriage return, the four separators 28 to 31, the blank,
  the next-line character 133 and the no-break space 160.
\<close>

definition lower_char :: "char \<Rightarrow> char" where
  "lower_char c =
     (let n = (of_char c :: nat)
      in if (65 \<le> n \<and> n \<le> 90) \<or> (192 \<le> n \<and> n \<le> 222 \<and> n \<noteq> 215)
         then char_of (n + 32) else c)"

definition lower :: "string \<Rightarrow> string" where
  "lower s = map lower_char s"

definition is_space :: "char \<Rightarrow> bool" where
  "is_space c =
     (let n = (of_char c :: nat)
      in (9 \<le> n \<and> n \<le> 13) \<or> (28 \<le> n \<and> n \<le> 32) \<or> n = 133 \<or> n = 160)"

definition strip :: "string \<Rightarrow> string" where
  "strip s = rev (dropWhile is_space (rev (dropWhile is_space s)))"

text \<open>
  Folding of the letters A to Z only, as the number parser and the database engine
  compare letters.
\<close>

definition ascii_lower_char :: "char \<Rightarrow> char" where
  "ascii_lower_char c =
     (let n = (of_char c :: nat) in if 65 \<le> n \<and> n \<le> 90 then char_of (n + 32) else c)"

definition ascii_lower :: "string \<Rightarrow> string" where
  "ascii_lower s = map ascii_lower_char s"

fun starts_with :: "string \<Rightarrow> string \<Rightarrow> bool" where
  "starts_with [] s = True"
| "starts_with (p # ps) [] = False"
| "starts_with (p # ps) (c # cs) = (p = c \<and> starts_with ps cs)"

text \<open>Python's \<open>sub in s\<close> on strings: \<open>sub\<close> occurs in \<open>s\<close> as a contiguous piece.\<close>

fun contains :: "string \<Rightarrow> string \<Rightarrow> bool" where
  "contains sub [] = (sub = [])"
| "contains sub (c # cs) = (starts_with sub (c # cs) \<or> contains sub cs)"

definition join :: "string \<Rightarrow> string list \<Rightarrow> string" where
  "join sep parts = (case parts of [] \<Rightarrow> [] | p # ps \<Rightarrow> foldl (\<lambda>acc q. acc @ sep @ q) p ps)"

section \<open>Python values\<close>

text \<open>
  A Python \<open>float\<close> is an IEEE binary64 number: a finite value, held here as the rational
  it denotes, an infinity or a NaN. The sign of zero is not represented.
\<close>

datatype pyfloat = Finite rat | PosInf | NegInf | NaN

text \<open>
  The values that reach the coercion routines: \<open>None\<close>, booleans, unbounded integers,
  floats, strings and pandas time stamps (nanoseconds since the epoch). A numpy scalar
  behaves as the Python value it holds.
\<close>

datatype pyval =
    PNone
  | PBool bool
  | PInt int
  | PFloat pyfloat
  | PStr string
  | PTimestamp int

datatype pyerr = ValueError | TypeError | OverflowError

text \<open>
  How Python prints a float and a time stamp is not fixed by this program; the three
  renderings are parameters of the model.
\<close>

record rendering =
  float_str :: "pyfloat \<Rightarrow> string"
  timestamp_str :: "int \<Rightarrow> string"
  timestamp_ymd :: "int \<Rightarrow> string"

subsection \<open>Rounding to binary64\<close>

fun bit_length :: "nat \<Rightarrow> nat" where
  "bit_length n = (if n = 0 then 0 else Suc (bit_length (n div 2)))"

declare bit_length.simps [simp del]

text \<open>\<open>floor_log2 q\<close> is the integer \<open>e\<close> with \<open>2 ^ e \<le> q < 2 ^ (e + 1)\<close>, for \<open>q > 0\<close>.\<close>

definition floor_log2 :: "rat \<Rightarrow> int" where
  "floor_log2 q =
     (if 1 \<le> q then int (bit_length (nat \<lfloor>q\<rfloor>)) - 1
      else - int (bit_length (nat (\<lceil>1 / q\<rceil> - 1))))"

definition pow2 :: "int \<Rightarrow> rat" where
  "pow2 e = (if 0 \<le> e then 2 ^ nat e else 1 / 2 ^ nat (- e))"

definition round_half_even :: "rat \<Rightarrow> int" where
  "round_half_even q =
     (let f = \<lfloor>q\<rfloor>; r = q - of_int f
      in if r < 1 / 2 then f else if 1 / 2 < r then f + 1 else if even f then f else f + 1)"

text \<open>
  Round to nearest, ties to even, with 53 bits of precision, subnormals below
  \<open>2 ^ -1022\<close> and overflow to infinity from \<open>2 ^ 1024\<close>.
\<close>

definition round_double_pos :: "rat \<Rightarrow> rat option" where
  "round_double_pos q =
     (let e = max (floor_log2 q) (- 1022);
          quantum = pow2 (e - 52);
          v = of_int (round_half_even (q / quantum)) * quantum
      in if pow2 1024 \<le> v then None else Some v)"

definition round_double :: "rat \<Rightarrow> pyfloat" where
  "round_double q =
     (if q = 0 then Finite 0
      else if 0 < q then (case round_double_pos q of None \<Rightarrow> PosInf | Some v \<Rightarrow> Finite v)
      else (case round_double_pos (- q) of None \<Rightarrow> NegInf | Some v \<Rightarrow> Finite (- v)))"

subsection \<open>Reading numbers from text\<close>

text \<open>
  \<open>int\<close> and \<open>float\<close> skip white space around the number, and theirs is not that of
  \<open>str.strip\<close>: the four separators 28 to 31 are not skipped.
\<close>

definition is_number_space :: "char \<Rightarrow> bool" where
  "is_number_space c =
     (let n = (of_char c :: nat) in (9 \<le> n \<and> n \<le> 13) \<or> n = 32 \<or> n = 133 \<or> n = 160)"

definition strip_number :: "string \<Rightarrow> string" where
  "strip_number s = rev (dropWhile is_number_space (rev (dropWhile is_number_space s)))"

definition is_digit :: "char \<Rightarrow> bool" where
  "is_digit c = (let n = (of_char c :: nat) in 48 \<le> n \<and> n \<le> 57)"

definition digit_val :: "char \<Rightarrow> nat" where
  "digit_val c = of_char c - 48"

definition digits_val :: "string \<Rightarrow> nat" where
  "digits_val ds = foldl (\<lambda>acc d. 10 * acc + digit_val d) 0 ds"

text \<open>
  A digit part is a run of digits in which single underscores may stand between two
  digits. \<open>digitpart s\<close> returns the digits of the longest digit part that starts \<open>s\<close>,
  and the rest of \<open>s\<close>.
\<close>

fun digitpart :: "string \<Rightarrow> string \<times> string" where
  "digitpart [] = ([], [])"
| "digitpart [c] = (if is_digit c then ([c], []) else ([], [c]))"
| "digitpart (c # u # cs) =
     (if is_digit c then
        (if u = CHR ''_'' \<and> cs \<noteq> [] \<and> is_digit (hd cs)
         then (let (ds, r) = digitpart cs in (c # ds, r))
         else (let (ds, r) = digitpart (u # cs) in (c # ds, r)))
      else ([], c # u # cs))"

definition split_sign :: "string \<Rightarrow> bool \<times> string" where
  "split_sign s =
     (case s of
        c # cs \<Rightarrow> if c = CHR ''-'' then (True, cs) else if c = CHR ''+'' then (False, cs)
                  else (False, s)
      | [] \<Rightarrow> (False, []))"

text \<open>\<open>int(s)\<close> for a string, base ten: \<open>None\<close> stands for Python's \<open>ValueError\<close>.\<close>

definition int_of_str :: "string \<Rightarrow> int option" where
  "int_of_str s =
     (let (neg, body) = split_sign (strip_number s); (ds, r) = digitpart body
      in if ds = [] \<or> r \<noteq> [] then None
         else Some (if neg then - int (digits_val ds) else int (digits_val ds)))"

text \<open>
  \<open>float(s)\<close> for a string: \<open>inf\<close>, \<open>infinity\<close> and \<open>nan\<close> in any case, or a decimal
  number with an optional fraction and an optional exponent, rounded to binary64.
\<close>

definition decimal_of_str :: "string \<Rightarrow> rat option" where
  "decimal_of_str body =
     (let (ip, r1) = digitpart body;
          (fp, r2) = (case r1 of c # cs \<Rightarrow> if c = CHR ''.'' then digitpart cs else ([], r1)
                      | [] \<Rightarrow> ([], []));
          mant = (of_nat (digits_val (ip @ fp)) :: rat) / 10 ^ length fp
      in if ip = [] \<and> fp = [] then None
         else (case r2 of
                 [] \<Rightarrow> Some mant
               | c # cs \<Rightarrow>
                   if c = CHR ''e'' \<or> c = CHR ''E'' then
                     (let (eneg, ebody) = split_sign cs; (es, r3) = digitpart ebody
                      in if es = [] \<or> r3 \<noteq> [] then None
                         else Some (if eneg then mant / 10 ^ digits_val es
                                    else mant * 10 ^ digits_val es))
                   else None))"

definition float_of_str :: "string \<Rightarrow> pyfloat option" where
  "float_of_str s =
     (let (neg, body) = split_sign (strip_number s); w = ascii_lower body
      in if w = ''inf'' \<or> w = ''infinity'' then Some (if neg then NegInf else PosInf)
         else if w = ''nan'' then Some NaN
         else (case decimal_of_str body of
                 None \<Rightarrow> None
               | Some q \<Rightarrow> Some (round_double (if neg then - q else q))))"

subsection \<open>The built-in conversions\<close>

text \<open>
  \<open>int\<close>, \<open>float\<close>, \<open>bool\<close> and \<open>str\<close> as the language defines them, with the exception each
  raises. The interpreter's adjustable limit on the number of digits of an integer text is
  not modelled.
\<close>

definition trunc :: "rat \<Rightarrow> int" where
  "trunc q = (if 0 \<le> q then \<lfloor>q\<rfloor> else \<lceil>q\<rceil>)"

fun py_int :: "pyval \<Rightarrow> pyerr + int" where
  "py_int PNone = Inl TypeError"
| "py_int (PBool b) = Inr (if b then 1 else 0)"
| "py_int (PInt n) = Inr n"
| "py_int (PFloat (Finite q)) = Inr (trunc q)"
| "py_int (PFloat NaN) = Inl ValueError"
| "py_int (PFloat PosInf) = Inl OverflowError"
| "py_int (PFloat NegInf) = Inl OverflowError"
| "py_int (PStr s) = (case int_of_str s of None \<Rightarrow> Inl ValueError | Some n \<Rightarrow> Inr n)"
| "py_int (PTimestamp t) = Inl TypeError"

fun py_float :: "pyval \<Rightarrow> pyerr + pyfloat" where
  "py_float PNone = Inl TypeError"
| "py_float (PBool b) = Inr (Finite (if b then 1 else 0))"
| "py_float (PInt n) =
     (case round_double (of_int n) of
        Finite q \<Rightarrow> Inr (Finite q)
      | _ \<Rightarrow> Inl OverflowError)"
| "py_float (PFloat f) = Inr f"
| "py_float (PStr s) = (case float_of_str s of None \<Rightarrow> Inl ValueError | Some f \<Rightarrow> Inr f)"
| "py_float (PTimestamp t) = Inl TypeError"

fun py_bool :: "pyval \<Rightarrow> bool" where
  "py_bool PNone = False"
| "py_bool (PBool b) = b"
| "py_bool (PInt n) = (n \<noteq> 0)"
| "py_bool (PFloat f) = (f \<noteq> Finite 0)"
| "py_bool (PStr s) = (s \<noteq> [])"
| "py_bool (PTimestamp t) = True"

fun digits_of :: "nat \<Rightarrow> string" where
  "digits_of n =
     (if n < 10 then [char_of (48 + n)] else digits_of (n div 10) @ [char_of (48 + n mod 10)])"

declare digits_of.simps [simp del]

definition int_str :: "int \<Rightarrow> string" where
  "int_str n = (if n < 0 then CHR ''-'' # digits_of (nat (- n)) else digits_of (nat n))"

fun py_str :: "rendering \<Rightarrow> pyval \<Rightarrow> string" where
  "py_str rd PNone = ''None''"
| "py_str rd (PBool b) = (if b then ''True'' else ''False'')"
| "py_str rd (PInt n) = int_str n"
| "py_str rd (PFloat f) = float_str rd f"
| "py_str rd (PStr s) = s"
| "py_str rd (PTimestamp t) = timestamp_str rd t"

fun is_str :: "pyval \<Rightarrow> bool" where
  "is_str (PStr s) = True"
| "is_str v = False"

text \<open>\<open>pd.isna\<close> on a scalar.\<close>

fun isna :: "pyval \<Rightarrow> bool" where
  "isna PNone = True"
| "isna (PFloat NaN) = True"
| "isna v = False"

section \<open>Column definitions and the Type Mapper\<close>

text \<open>
  \<open>ColumnDefinition\<close> of \<open>setup_wizard.py\<close>. The logical type is the string the code
  branches on: \<open>text\<close>, \<open>number\<close> (the integer type), \<open>decimal\<close>, \<open>date\<close>, \<open>boolean\<close>.
\<close>

record column_definition =
  name :: string
  display_name :: string
  data_type :: string
  required :: bool
  default_value :: string

text \<open>
  \<open>try: ... except (ValueError, TypeError): handler\<close>: the two caught exceptions give the
  handler's value, every other exception goes on to the caller.
\<close>

fun except_value_type :: "pyerr + pyval \<Rightarrow> pyval \<Rightarrow> pyerr + pyval" where
  "except_value_type (Inr v) handler = Inr v"
| "except_value_type (Inl ValueError) handler = Inr handler"
| "except_value_type (Inl TypeError) handler = Inr handler"
| "except_value_type (Inl OverflowError) handler = Inl OverflowError"

subsection \<open>The store's write path: \<open>DynamicDatabaseManager._convert_value\<close>\<close>

text \<open>The body of the \<open>try\<close> block.\<close>

definition convert_value_try :: "rendering \<Rightarrow> pyval \<Rightarrow> string \<Rightarrow> pyerr + pyval" where
  "convert_value_try rd v dt =
     (if dt = ''number'' then (case py_int v of Inl e \<Rightarrow> Inl e | Inr n \<Rightarrow> Inr (PInt n))
      else if dt = ''decimal'' then
        (case py_float v of Inl e \<Rightarrow> Inl e | Inr f \<Rightarrow> Inr (PFloat f))
      else if dt = ''boolean'' then
        (case v of
           PBool b \<Rightarrow> Inr (PInt (if b then 1 else 0))
         | PStr s \<Rightarrow>
             Inr (PInt (if lower s \<in> set [''true'', ''1'', ''yes'', ''on''] then 1 else 0))
         | _ \<Rightarrow> Inr (PInt (if py_bool v then 1 else 0)))
      else Inr (PStr (py_str rd v)))"

definition convert_value :: "rendering \<Rightarrow> pyval \<Rightarrow> string \<Rightarrow> pyerr + pyval" where
  "convert_value rd v dt =
     (if v = PNone \<or> v = PStr [] then Inr PNone
      else except_value_type (convert_value_try rd v dt) v)"

subsection \<open>The import path: \<open>DynamicExcelHandler._convert_excel_value\<close>\<close>

definition get_default_for_type :: "string \<Rightarrow> pyval" where
  "get_default_for_type dt =
     (if dt = ''text'' then PStr []
      else if dt = ''number'' then PInt 0
      else if dt = ''decimal'' then PFloat (Finite 0)
      else if dt = ''date'' then PStr []
      else if dt = ''boolean'' then PBool False
      else PStr [])"

text \<open>\<open>column.default_value or self._get_default_for_type(column.data_type)\<close>\<close>

definition default_or_zero :: "column_definition \<Rightarrow> pyval" where
  "default_or_zero col =
     (if default_value col \<noteq> [] then PStr (default_value col)
      else get_default_for_type (data_type col))"

definition convert_excel_try :: "rendering \<Rightarrow> pyval \<Rightarrow> column_definition \<Rightarrow> pyerr + pyval" where
  "convert_excel_try rd v col =
     (if data_type col = ''number'' then
        (case py_float v of
           Inl e \<Rightarrow> Inl e
         | Inr f \<Rightarrow> (case py_int (PFloat f) of Inl e \<Rightarrow> Inl e | Inr n \<Rightarrow> Inr (PInt n)))
      else if data_type col = ''decimal'' then
        (case py_float v of Inl e \<Rightarrow> Inl e | Inr f \<Rightarrow> Inr (PFloat f))
      else if data_type col = ''boolean'' then
        (case v of
           PBool b \<Rightarrow> Inr (PBool b)
         | PStr s \<Rightarrow> Inr (PBool (lower s \<in> set [''true'', ''1'', ''yes'', ''on'', ''y'']))
         | _ \<Rightarrow> Inr (PBool (py_bool v)))
      else if data_type col = ''date'' then
        (if isna v then Inr (if default_value col \<noteq> [] then PStr (default_value col) else PStr [])
         else (case v of
                 PTimestamp t \<Rightarrow> Inr (PStr (timestamp_ymd rd t))
               | _ \<Rightarrow> Inr (PStr (py_str rd v))))
      else Inr (PStr (strip (py_str rd v))))"

definition convert_excel_value :: "rendering \<Rightarrow> pyval \<Rightarrow> column_definition \<Rightarrow> pyerr + pyval" where
  "convert_excel_value rd v col =
     (if isna v \<or> v = PStr [] then Inr (default_or_zero col)
      else except_value_type (convert_excel_try rd v col) (default_or_zero col))"

text \<open>
  A rendering to run the model on concrete inputs: it prints a float as its integer part
  followed by \<open>.0\<close> (what Python prints for an integral float of small magnitude) and every
  time stamp as the epoch.
\<close>

definition sample_float_str :: "pyfloat \<Rightarrow> string" where
  "sample_float_str f =
     (case f of Finite q \<Rightarrow> int_str (trunc q) @ ''.0'' | PosInf \<Rightarrow> ''inf''
      | NegInf \<Rightarrow> ''-inf'' | NaN \<Rightarrow> ''nan'')"

definition sample_timestamp_str :: "int \<Rightarrow> string" where
  "sample_timestamp_str t = ''1970-01-01 00:00:00''"

definition sample_timestamp_ymd :: "int \<Rightarrow> string" where
  "sample_timestamp_ymd t = ''1970-01-01''"

definition sample_rendering :: rendering where
  "sample_rendering =
     \<lparr>float_str = sample_float_str, timestamp_str = sample_timestamp_str,
      timestamp_ymd = sample_timestamp_ymd\<rparr>"

section \<open>The Schema Builder\<close>

text \<open>\<open>DynamicDatabaseManager._get_sql_type\<close>: a dictionary lookup with \<open>TEXT\<close> as the default.\<close>

definition get_sql_type :: "string \<Rightarrow> string" where
  "get_sql_type dt =
     (if dt = ''text'' then ''TEXT''
      else if dt = ''number'' then ''INTEGER''
      else if dt = ''decimal'' then ''REAL''
      else if dt = ''date'' then ''TEXT''
      else if dt = ''boolean'' then ''INTEGER''
      else ''TEXT'')"

definition null_constraint :: "column_definition \<Rightarrow> string" where
  "null_constraint col = (if required col then ''NOT NULL'' else [])"

definition default_constraint :: "column_definition \<Rightarrow> string" where
  "default_constraint col =
     (if default_value col \<noteq> [] then ''DEFAULT '' @ [CHR 0x27] @ default_value col @ [CHR 0x27]
      else [])"

text \<open>The line that the loop of \<open>_generate_table_sql\<close> appends for one column.\<close>

definition column_line :: "column_definition \<Rightarrow> string" where
  "column_line col =
     ''    '' @ name col @ '' '' @ get_sql_type (data_type col) @ '' '' @ null_constraint col
       @ '' '' @ default_constraint col @ '',''"

definition sql_parts :: "column_definition list \<Rightarrow> string list" where
  "sql_parts cols =
     foldl (\<lambda>parts col. parts @ [column_line col])
       [''CREATE TABLE catalogue_items ('', ''    id INTEGER PRIMARY KEY AUTOINCREMENT,''] cols
     @ [''    created_date TEXT,''] @ [''    modified_date TEXT''] @ ['')'']"

definition generate_table_sql :: "column_definition list \<Rightarrow> string" where
  "generate_table_sql cols = join [CHR 0x0A] (sql_parts cols)"

section \<open>The Column-Matcher\<close>

text \<open>
  The mapping loop of \<open>DynamicExcelHandler.import_from_excel\<close>, on the header row after
  \<open>str.strip\<close>. For one column: the first header equal to the label without regard to
  case, else the first header that contains the label or is contained in it.
\<close>

definition match_column :: "string list \<Rightarrow> column_definition \<Rightarrow> string option" where
  "match_column headers col =
     (case find (\<lambda>h. lower h = lower (display_name col)) headers of
        Some h \<Rightarrow> Some h
      | None \<Rightarrow>
          find (\<lambda>h. contains (lower (display_name col)) (lower h)
                    \<or> contains (lower h) (lower (display_name col))) headers)"

text \<open>
  One turn of the loop over the columns: \<open>column_mapping[excel_col] = column.name\<close> or
  \<open>unmapped_columns.append(column.display_name)\<close>.
\<close>

definition mapping_step ::
  "string list \<Rightarrow> (string \<rightharpoonup> string) \<times> string list \<Rightarrow> column_definition
     \<Rightarrow> (string \<rightharpoonup> string) \<times> string list" where
  "mapping_step headers st col =
     (case match_column headers col of
        Some h \<Rightarrow> ((fst st)(h \<mapsto> name col), snd st)
      | None \<Rightarrow> (fst st, snd st @ [display_name col]))"

definition build_mapping ::
  "string list \<Rightarrow> column_definition list \<Rightarrow> (string \<rightharpoonup> string) \<times> string list" where
  "build_mapping headers cols = foldl (mapping_step headers) (Map.empty, []) cols"

definition column_mapping :: "string list \<Rightarrow> column_definition list \<Rightarrow> (string \<rightharpoonup> string)" where
  "column_mapping headers cols = fst (build_mapping headers cols)"

section \<open>The Catalogue Store\<close>

subsection \<open>The database engine\<close>

text \<open>
  What SQLite holds in a cell: \<open>NULL\<close>, an integer, a real or a text. The engine is used
  through its query interface only; three of its behaviours are parameters of the model:
  whether it accepts a data-definition statement, how a column of a declared type stores a
  value that is not \<open>NULL\<close> (column affinity), and the text it compares when \<open>LIKE\<close> meets a
  number.
\<close>

datatype sqlval = SNull | SInt int | SReal pyfloat | SText string

record engine =
  accepts :: "string \<Rightarrow> bool"
  affinity :: "string \<Rightarrow> sqlval \<Rightarrow> sqlval"
  number_text :: "sqlval \<Rightarrow> string"

text \<open>
  Binding a Python value to a statement parameter: \<open>None\<close> and NaN become \<open>NULL\<close>, an
  integer must fit 64 bits, a time stamp is not a supported type. \<open>None\<close> is the failure.
\<close>

fun bind :: "pyval \<Rightarrow> sqlval option" where
  "bind PNone = Some SNull"
| "bind (PBool b) = Some (SInt (if b then 1 else 0))"
| "bind (PInt n) =
     (if - 9223372036854775808 \<le> n \<and> n \<le> 9223372036854775807 then Some (SInt n) else None)"
| "bind (PFloat NaN) = Some SNull"
| "bind (PFloat f) = Some (SReal f)"
| "bind (PStr s) = Some (SText s)"
| "bind (PTimestamp t) = None"

definition store_value :: "engine \<Rightarrow> column_definition \<Rightarrow> sqlval \<Rightarrow> sqlval" where
  "store_value eng col v =
     (case v of SNull \<Rightarrow> SNull | _ \<Rightarrow> affinity eng (get_sql_type (data_type col)) v)"



subsection \<open>The state\<close>

text \<open>
  The configuration dictionary, a row of \<open>catalogue_items\<close>, and the state of a
  \<open>DynamicDatabaseManager\<close> with its database file: the attribute \<open>catalogue_config\<close>, the row
  of the table \<open>catalogue_config\<close> (with its two dates), the rows of \<open>catalogue_items\<close> and
  the largest id the table has given out (\<open>AUTOINCREMENT\<close>). The table
  \<open>catalogue_items\<close> has the columns of the active configuration, which
  \<open>create_catalogue_structure\<close> builds it from, so the declared types and the \<open>NOT NULL\<close>
  flags are read from \<open>catalogue_config\<close>. The current time is an argument of each operation.
\<close>

record catalogue =
  catalogue_name :: string
  columns :: "column_definition list"

record item =
  item_id :: int
  vals :: "(string \<times> sqlval) list"
  created_date :: string
  modified_date :: string

record store =
  catalogue_config :: "catalogue option"
  stored_config :: "(catalogue \<times> string \<times> string) option"
  items :: "item list"
  last_id :: int

datatype store_error = NoStructure | ConversionError pyerr | BindingError | IntegrityError

subsection \<open>The operations\<close>

text \<open>
  \<open>create_catalogue_structure\<close>: one transaction replaces the configuration row, drops the
  table and creates it anew; when the engine refuses the statement the transaction is
  rolled back and the result is \<open>False\<close>.
\<close>

definition create_catalogue_structure ::
  "engine \<Rightarrow> string \<Rightarrow> store \<Rightarrow> catalogue \<Rightarrow> bool \<times> store" where
  "create_catalogue_structure eng now st config =
     (if accepts eng (generate_table_sql (columns config))
      then (True, st\<lparr>catalogue_config := Some config, stored_config := Some (config, now, now),
                      items := [], last_id := 0\<rparr>)
      else (False, st))"

definition load_catalogue_config :: "store \<Rightarrow> catalogue option \<times> store" where
  "load_catalogue_config st =
     (case stored_config st of
        Some (config, created, modified) \<Rightarrow> (Some config, st\<lparr>catalogue_config := Some config\<rparr>)
      | None \<Rightarrow> (None, st))"

text \<open>The conversion loop: the first exception that is not caught ends it.\<close>

fun convert_each :: "rendering \<Rightarrow> (pyval \<times> column_definition) list \<Rightarrow> pyerr + pyval list" where
  "convert_each rd [] = Inr []"
| "convert_each rd ((v, col) # rest) =
     (case convert_value rd v (data_type col) of
        Inl e \<Rightarrow> Inl e
      | Inr x \<Rightarrow> (case convert_each rd rest of Inl e \<Rightarrow> Inl e | Inr xs \<Rightarrow> Inr (x # xs)))"

fun bind_each :: "pyval list \<Rightarrow> sqlval list option" where
  "bind_each [] = Some []"
| "bind_each (x # xs) =
     (case bind x of
        None \<Rightarrow> None
      | Some s \<Rightarrow> (case bind_each xs of None \<Rightarrow> None | Some ss \<Rightarrow> Some (s # ss)))"

text \<open>The values a statement writes, one for each raw value and its column.\<close>

definition stored_values ::
  "rendering \<Rightarrow> engine \<Rightarrow> (pyval \<times> column_definition) list \<Rightarrow> store_error + sqlval list" where
  "stored_values rd eng raws =
     (case convert_each rd raws of
        Inl e \<Rightarrow> Inl (ConversionError e)
      | Inr xs \<Rightarrow>
          (case bind_each xs of
             None \<Rightarrow> Inl BindingError
           | Some ss \<Rightarrow> Inr (map (\<lambda>(col, s). store_value eng col s) (zip (map snd raws) ss))))"

definition violates_not_null :: "column_definition list \<Rightarrow> sqlval list \<Rightarrow> bool" where
  "violates_not_null cols ss = list_ex (\<lambda>(col, s). required col \<and> s = SNull) (zip cols ss)"

text \<open>\<open>item_data.get(col.name, col.default_value)\<close>\<close>

definition raw_value :: "(string \<rightharpoonup> pyval) \<Rightarrow> column_definition \<Rightarrow> pyval" where
  "raw_value item_data col =
     (case item_data (name col) of None \<Rightarrow> PStr (default_value col) | Some v \<Rightarrow> v)"

definition add_item ::
  "rendering \<Rightarrow> engine \<Rightarrow> string \<Rightarrow> store \<Rightarrow> (string \<rightharpoonup> pyval) \<Rightarrow> store_error + (int \<times> store)" where
  "add_item rd eng now st item_data =
     (case catalogue_config st of
        None \<Rightarrow> Inl NoStructure
      | Some config \<Rightarrow>
          (let cols = columns config
           in case stored_values rd eng (map (\<lambda>col. (raw_value item_data col, col)) cols) of
                Inl e \<Rightarrow> Inl e
              | Inr ss \<Rightarrow>
                  if violates_not_null cols ss then Inl IntegrityError
                  else (let new_id = last_id st + 1
                        in Inr (new_id,
                                st\<lparr>items := items st @
                                      [\<lparr>item_id = new_id, vals = zip (map name cols) ss,
                                        created_date = now, modified_date = now\<rparr>],
                                    last_id := new_id\<rparr>))))"

definition get_all_items :: "store \<Rightarrow> item list" where
  "get_all_items st =
     (case catalogue_config st of None \<Rightarrow> [] | Some config \<Rightarrow> sort_key item_id (items st))"

text \<open>\<open>SET name = ?\<close> for each pair, in order.\<close>

definition set_column :: "(string \<times> sqlval) list \<Rightarrow> string \<times> sqlval \<Rightarrow> (string \<times> sqlval) list" where
  "set_column vs kv = map (\<lambda>(k, s). if k = fst kv then (k, snd kv) else (k, s)) vs"

definition assign :: "(string \<times> sqlval) list \<Rightarrow> (string \<times> sqlval) list \<Rightarrow> (string \<times> sqlval) list" where
  "assign sets vs = foldl set_column vs sets"

definition supplied :: "(string \<rightharpoonup> pyval) \<Rightarrow> column_definition list \<Rightarrow> (pyval \<times> column_definition) list" where
  "supplied item_data cols =
     List.map_filter (\<lambda>col. map_option (\<lambda>v. (v, col)) (item_data (name col))) cols"

definition update_item ::
  "rendering \<Rightarrow> engine \<Rightarrow> string \<Rightarrow> store \<Rightarrow> int \<Rightarrow> (string \<rightharpoonup> pyval) \<Rightarrow> store_error + (bool \<times> store)" where
  "update_item rd eng now st iid item_data =
     (case catalogue_config st of
        None \<Rightarrow> Inr (False, st)
      | Some config \<Rightarrow>
          (let raws = supplied item_data (columns config)
           in case stored_values rd eng raws of
                Inl e \<Rightarrow> Inl e
              | Inr ss \<Rightarrow>
                  if bind (PInt iid) = None then Inl BindingError
                  else if \<not> list_ex (\<lambda>r. item_id r = iid) (items st) then Inr (False, st)
                  else if violates_not_null (map snd raws) ss then Inl IntegrityError
                  else Inr (True,
                            st\<lparr>items :=
                                 map (\<lambda>r. if item_id r = iid
                                          then r\<lparr>vals := assign (zip (map (name \<circ> snd) raws) ss) (vals r),
                                                 modified_date := now\<rparr>
                                          else r) (items st)\<rparr>)))"




text \<open>
  An engine to run the model on concrete inputs. It refuses a statement in which a string
  literal is left open, which is one with an odd number of apostrophes when apostrophes
  occur in literals only, and accepts every other statement; it stores every value as it
  was bound and compares a number by its decimal digits.
\<close>

definition sample_accepts :: "string \<Rightarrow> bool" where
  "sample_accepts sql = even (length (filter (\<lambda>c. c = CHR 0x27) sql))"

definition sample_affinity :: "string \<Rightarrow> sqlval \<Rightarrow> sqlval" where
  "sample_affinity ty v = v"

definition sample_number_text :: "sqlval \<Rightarrow> string" where
  "sample_number_text v =
     (case v of SInt n \<Rightarrow> int_str n | SReal f \<Rightarrow> sample_float_str f | SText s \<Rightarrow> s | SNull \<Rightarrow> [])"

definition sample_engine :: engine where
  "sample_engine =
     \<lparr>accepts = sample_accepts, affinity = sample_affinity, number_text = sample_number_text\<rparr>"

section \<open>Sample data\<close>

text \<open>Columns, catalogues and stores on which the operations are run below.\<close>

definition cost_column :: column_definition where
  "cost_column =
     \<lparr>name = ''cost'', display_name = ''Cost'', data_type = ''decimal'', required = False,
      default_value = []\<rparr>"

definition unit_cost_column :: column_definition where
  "unit_cost_column =
     \<lparr>name = ''unit_cost'', display_name = ''Cost per Unit'', data_type = ''decimal'',
      required = False, default_value = []\<rparr>"

definition name_column :: column_definition where
  "name_column =
     \<lparr>name = ''name'', display_name = ''Name'', data_type = ''text'', required = True,
      default_value = []\<rparr>"

definition qty_column :: column_definition where
  "qty_column =
     \<lparr>name = ''qty'', display_name = ''Quantity'', data_type = ''number'', required = False,
      default_value = ''0''\<rparr>"


definition remark_column :: column_definition where
  "remark_column =
     \<lparr>name = ''remark'', display_name = ''Remark'', data_type = ''text'', required = False,
      default_value = ''it'' @ [CHR 0x27] @ ''s''\<rparr>"

definition remark_catalogue :: catalogue where
  "remark_catalogue = \<lparr>catalogue_name = ''Remarks'', columns = [remark_column]\<rparr>"

definition parts_catalogue :: catalogue where
  "parts_catalogue = \<lparr>catalogue_name = ''Parts'', columns = [name_column, qty_column]\<rparr>"



text \<open>A manager on a new database file, and one whose structure has just been created.\<close>

definition empty_store :: store where
  "empty_store = \<lparr>catalogue_config = None, stored_config = None, items = [], last_id = 0\<rparr>"

definition fresh_store :: "catalogue \<Rightarrow> store" where
  "fresh_store config =
     \<lparr>catalogue_config = Some config,
      stored_config = Some (config, ''2024-01-01T00:00:00'', ''2024-01-01T00:00:00''),
      items = [], last_id = 0\<rparr>"

definition one_row_store :: "catalogue \<Rightarrow> (string \<times> sqlval) list \<Rightarrow> store" where
  "one_row_store config vs =
     \<lparr>catalogue_config = Some config,
      stored_config = Some (config, ''2024-01-01T00:00:00'', ''2024-01-01T00:00:00''),
      items = [\<lparr>item_id = 1, vals = vs, created_date = ''2024-01-02T00:00:00'',
                modified_date = ''2024-01-02T00:00:00''\<rparr>],
      last_id = 1\<rparr>"

section \<open>Properties of the Type Mapper\<close>

lemma lower_Nil: "lower [] = []"
  by (simp add: lower_def)

lemma float_of_str_abc: "float_of_str ''abc'' = None"
  by code_simp

lemma float_of_str_3: "float_of_str ''3.0'' = Some (Finite 3)"
  by code_simp

lemma int_of_str_3: "int_of_str ''3.0'' = None"
  by code_simp

lemma trunc_3: "trunc 3 = 3"
  by (simp add: trunc_def)

lemma lower_Y: "lower ''Y'' = ''y''"
  by code_simp

text \<open>
  The capital E with acute accent folds to the small one; the separator 28 is white space
  for \<open>strip\<close> and not for \<open>int\<close> and \<open>float\<close>, the no-break space is for all three.
\<close>

lemma lower_capital_accent: "lower [CHR 0xC9, CHR ''T'', CHR ''A'', CHR ''T''] = [CHR 0xE9, CHR ''t'', CHR ''a'', CHR ''t'']"
  by code_simp

lemma strip_separator: "strip (CHR 0x1C # ''5'') = ''5''"
  by code_simp

lemma int_of_str_separator: "int_of_str (CHR 0x1C # ''5'') = None"
  by code_simp

lemma float_of_str_separator: "float_of_str (CHR 0x1D # ''2.5'') = None"
  by code_simp

lemma int_of_str_no_break_space: "int_of_str (CHR 0xA0 # ''5'') = Some 5"
  by code_simp

lemma except_value_type_caught:
  "except_value_type r h \<noteq> Inl ValueError \<and> except_value_type r h \<noteq> Inl TypeError"
  by (cases "(r, h)" rule: except_value_type.cases) auto

text \<open>
  Claim C1, as the code has it. Neither coercion routine lets a \<open>ValueError\<close> or a
  \<open>TypeError\<close> reach its caller. On the import path an input whose conversion raises one of
  the two yields the column's declared default when that is not empty, and otherwise the
  zero of the type: \<open>0\<close>, \<open>0.0\<close> for a decimal column, \<open>False\<close>, the empty string. On the
  store's write path such an input is returned as it came, and \<open>None\<close> and the empty string
  become \<open>None\<close>.
\<close>

theorem coercion_failure_policy:
  "convert_value rd v dt \<noteq> Inl ValueError \<and> convert_value rd v dt \<noteq> Inl TypeError
   \<and> convert_excel_value rd v col \<noteq> Inl ValueError
   \<and> convert_excel_value rd v col \<noteq> Inl TypeError
   \<and> ((convert_excel_try rd v col = Inl ValueError \<or> convert_excel_try rd v col = Inl TypeError)
        \<longrightarrow> convert_excel_value rd v col = Inr (default_or_zero col))
   \<and> (default_or_zero col =
         (if default_value col \<noteq> [] then PStr (default_value col)
          else if data_type col = ''number'' then PInt 0
          else if data_type col = ''decimal'' then PFloat (Finite 0)
          else if data_type col = ''boolean'' then PBool False
          else PStr []))
   \<and> (v \<noteq> PNone \<and> v \<noteq> PStr []
        \<and> (convert_value_try rd v dt = Inl ValueError \<or> convert_value_try rd v dt = Inl TypeError)
        \<longrightarrow> convert_value rd v dt = Inr v)
   \<and> (v = PNone \<or> v = PStr [] \<longrightarrow> convert_value rd v dt = Inr PNone)"
  apply (intro conjI impI)
  apply (simp_all add: convert_value_def convert_excel_value_def except_value_type_caught)
  apply (auto simp: default_or_zero_def get_default_for_type_def)
  done

theorem coercion_failure_policy_witness:
  "convert_excel_value sample_rendering (PStr ''abc'')
      \<lparr>name = ''price'', display_name = ''Price'', data_type = ''decimal'', required = False,
       default_value = []\<rparr> = Inr (PFloat (Finite 0))
   \<and> convert_value sample_rendering (PStr ''abc'') ''decimal'' = Inr (PStr ''abc'')"
  using coercion_failure_policy [of sample_rendering "PStr ''abc''" "''decimal''"
      "\<lparr>name = ''price'', display_name = ''Price'', data_type = ''decimal'', required = False,
       default_value = []\<rparr>"]
  by (simp add: convert_excel_try_def convert_value_try_def float_of_str_abc)

text \<open>
  Against C1 as stated: on the store's write path the text \<open>abc\<close>, which \<open>float\<close> rejects,
  comes back unconverted for a decimal column.
\<close>

theorem unconverted_value_returned:
  "py_float (PStr ''abc'') = Inl ValueError
   \<and> convert_value sample_rendering (PStr ''abc'') ''decimal'' = Inr (PStr ''abc'')"
  by (simp add: convert_value_def convert_value_try_def float_of_str_abc)

text \<open>
  Claim C2, as the code has it. For a column of the integer type the import path reads a
  text through \<open>float\<close> and truncates, so \<open>3.0\<close> gives \<open>3\<close>; a text that \<open>float\<close> rejects and
  the empty string give the declared default when that is not empty and \<open>0\<close> otherwise. The
  store's write path applies \<open>int\<close> to the text itself: a text that \<open>int\<close> reads gives its
  integer, any other text, such as \<open>3.0\<close>, comes back as the text it was, and the empty
  string gives \<open>None\<close>.
\<close>

theorem integer_coercion_paths:
  "data_type col = ''number'' \<Longrightarrow>
     convert_excel_value rd (PStr ''3.0'') col = Inr (PInt 3)
   \<and> (s \<noteq> [] \<and> float_of_str s = Some (Finite q)
        \<longrightarrow> convert_excel_value rd (PStr s) col = Inr (PInt (trunc q)))
   \<and> (s \<noteq> [] \<and> float_of_str s = None
        \<longrightarrow> convert_excel_value rd (PStr s) col =
            Inr (if default_value col \<noteq> [] then PStr (default_value col) else PInt 0))
   \<and> convert_excel_value rd (PStr []) col =
        Inr (if default_value col \<noteq> [] then PStr (default_value col) else PInt 0)
   \<and> (s \<noteq> []
        \<longrightarrow> convert_value rd (PStr s) ''number'' =
            (case int_of_str s of Some n \<Rightarrow> Inr (PInt n) | None \<Rightarrow> Inr (PStr s)))
   \<and> convert_value rd (PStr ''3.0'') ''number'' = Inr (PStr ''3.0'')
   \<and> convert_value rd (PStr []) ''number'' = Inr PNone"
  by (auto simp: convert_excel_value_def convert_excel_try_def convert_value_def
      convert_value_try_def float_of_str_3 int_of_str_3 trunc_3 default_or_zero_def
      get_default_for_type_def split: option.splits)

lemma int_of_str_7: "int_of_str ''7'' = Some 7"
  by code_simp

theorem integer_coercion_paths_witness:
  "convert_excel_value sample_rendering (PStr ''3.0'')
      \<lparr>name = ''qty'', display_name = ''Quantity'', data_type = ''number'', required = False,
       default_value = ''0''\<rparr> = Inr (PInt 3)
   \<and> convert_excel_value sample_rendering (PStr ''abc'')
      \<lparr>name = ''qty'', display_name = ''Quantity'', data_type = ''number'', required = False,
       default_value = ''0''\<rparr> = Inr (PStr ''0'')
   \<and> convert_excel_value sample_rendering (PStr [])
      \<lparr>name = ''qty'', display_name = ''Quantity'', data_type = ''number'', required = False,
       default_value = ''0''\<rparr> = Inr (PStr ''0'')
   \<and> convert_value sample_rendering (PStr ''7'') ''number'' = Inr (PInt 7)"
  using integer_coercion_paths [of
      "\<lparr>name = ''qty'', display_name = ''Quantity'', data_type = ''number'', required = False,
       default_value = ''0''\<rparr>" sample_rendering "''abc''" 0]
    integer_coercion_paths [of
      "\<lparr>name = ''qty'', display_name = ''Quantity'', data_type = ''number'', required = False,
       default_value = ''0''\<rparr>" sample_rendering "''7''" 0]
  by (simp add: float_of_str_abc int_of_str_7)

text \<open>
  Against C2 as stated: the store's write path keeps \<open>3.0\<close> as text and turns the empty
  string into \<open>None\<close>.
\<close>

theorem store_integer_coercion_keeps_text:
  "convert_value sample_rendering (PStr ''3.0'') ''number'' = Inr (PStr ''3.0'')
   \<and> convert_value sample_rendering (PStr []) ''number'' = Inr PNone"
  by (simp add: convert_value_def convert_value_try_def int_of_str_3)

text \<open>
  Claim C6, as the code has it. On the store's write path, for every input \<open>x\<close>, the
  coerced value is truthy exactly when \<open>x\<close> is a string that lowercases to one of \<open>true\<close>,
  \<open>1\<close>, \<open>yes\<close>, \<open>on\<close>, or \<open>x\<close> is not a string and is truthy. On the import path the same
  holds, with \<open>y\<close> as a fifth token, for every \<open>x\<close> that is neither missing (\<open>None\<close>, NaN)
  nor the empty string; a missing or empty \<open>x\<close> yields the column's declared default when
  that is not empty, and \<open>False\<close> otherwise.
\<close>

theorem boolean_coercion_paths:
  "(\<exists>r. convert_value rd x ''boolean'' = Inr r
        \<and> (py_bool r \<longleftrightarrow>
             (case x of PStr s \<Rightarrow> lower s \<in> set [''true'', ''1'', ''yes'', ''on'']
              | _ \<Rightarrow> py_bool x)))
   \<and> (data_type col = ''boolean'' \<and> \<not> isna x \<and> x \<noteq> PStr []
        \<longrightarrow> convert_excel_value rd x col =
            Inr (PBool (case x of
                          PStr s \<Rightarrow> lower s \<in> set [''true'', ''1'', ''yes'', ''on'', ''y'']
                        | _ \<Rightarrow> py_bool x)))
   \<and> (data_type col = ''boolean'' \<and> (isna x \<or> x = PStr [])
        \<longrightarrow> convert_excel_value rd x col =
            Inr (if default_value col \<noteq> [] then PStr (default_value col) else PBool False))"
  by (cases x)
     (auto simp: convert_value_def convert_value_try_def convert_excel_value_def
       convert_excel_try_def default_or_zero_def get_default_for_type_def lower_Nil)

theorem boolean_coercion_paths_witness:
  "convert_excel_value sample_rendering (PStr ''Y'')
      \<lparr>name = ''active'', display_name = ''Active'', data_type = ''boolean'', required = False,
       default_value = []\<rparr> = Inr (PBool True)
   \<and> convert_excel_value sample_rendering PNone
      \<lparr>name = ''active'', display_name = ''Active'', data_type = ''boolean'', required = False,
       default_value = []\<rparr> = Inr (PBool False)"
  using boolean_coercion_paths [of sample_rendering "PStr ''Y''"
      "\<lparr>name = ''active'', display_name = ''Active'', data_type = ''boolean'', required = False,
       default_value = []\<rparr>"]
    boolean_coercion_paths [of sample_rendering PNone
      "\<lparr>name = ''active'', display_name = ''Active'', data_type = ''boolean'', required = False,
       default_value = []\<rparr>"]
  by (simp add: lower_Y)

text \<open>
  Against C6 as stated, on the import path: the empty string, which is no truthy token,
  coerces to the declared default \<open>yes\<close>, a truthy value; and NaN, a truthy value that is
  not a string, coerces to \<open>False\<close>.
\<close>

theorem import_boolean_default_replaces_input:
  "convert_excel_value sample_rendering (PStr [])
      \<lparr>name = ''active'', display_name = ''Active'', data_type = ''boolean'', required = False,
       default_value = ''yes''\<rparr> = Inr (PStr ''yes'')
   \<and> py_bool (PStr ''yes'')
   \<and> py_bool (PFloat NaN)
   \<and> convert_excel_value sample_rendering (PFloat NaN)
      \<lparr>name = ''active'', display_name = ''Active'', data_type = ''boolean'', required = False,
       default_value = []\<rparr> = Inr (PBool False)"
  by (simp add: convert_excel_value_def default_or_zero_def get_default_for_type_def)

text \<open>
  The handlers catch \<open>ValueError\<close> and \<open>TypeError\<close> only: the \<open>OverflowError\<close> that \<open>int\<close>
  raises on an infinite float goes on to the caller, on both paths.
\<close>

lemma float_of_str_inf: "float_of_str ''inf'' = Some PosInf"
  by code_simp

lemma overflow_reaches_caller:
  "convert_excel_value rd (PStr ''inf'') qty_column = Inl OverflowError
   \<and> convert_value rd (PFloat PosInf) ''number'' = Inl OverflowError"
  by (simp add: convert_excel_value_def convert_excel_try_def qty_column_def float_of_str_inf
      convert_value_def convert_value_try_def)

section \<open>Properties of the Schema Builder\<close>

lemma foldl_snoc_map: "foldl (\<lambda>parts col. parts @ [f col]) acc cols = acc @ map f cols"
  by (induction cols arbitrary: acc) simp_all

lemma join_text: "join sep (p # ps) = p @ concat (map (\<lambda>q. sep @ q) ps)"
proof -
  have "foldl (\<lambda>acc q. acc @ sep @ q) p ps = p @ concat (map (\<lambda>q. sep @ q) ps)" for p
    by (induction ps arbitrary: p) simp_all
  then show ?thesis
    by (simp add: join_def)
qed

lemma table_sql_text:
  "generate_table_sql cols =
     ''CREATE TABLE catalogue_items ('' @ [CHR 0x0A]
     @ ''    id INTEGER PRIMARY KEY AUTOINCREMENT,''
     @ concat (map (\<lambda>col. [CHR 0x0A] @ column_line col) cols)
     @ [CHR 0x0A] @ ''    created_date TEXT,''
     @ [CHR 0x0A] @ ''    modified_date TEXT''
     @ [CHR 0x0A] @ '')''"
  by (simp add: generate_table_sql_def sql_parts_def foldl_snoc_map join_text comp_def)

text \<open>The statement for the catalogue of parts, line by line.\<close>

lemma parts_table_sql:
  "generate_table_sql (columns parts_catalogue) =
     ''CREATE TABLE catalogue_items ('' @ [CHR 0x0A]
     @ ''    id INTEGER PRIMARY KEY AUTOINCREMENT,'' @ [CHR 0x0A]
     @ ''    name TEXT NOT NULL ,'' @ [CHR 0x0A]
     @ ''    qty INTEGER  DEFAULT '' @ [CHR 0x27] @ ''0'' @ [CHR 0x27] @ '','' @ [CHR 0x0A]
     @ ''    created_date TEXT,'' @ [CHR 0x0A]
     @ ''    modified_date TEXT'' @ [CHR 0x0A]
     @ '')''"
  by (simp add: table_sql_text column_line_def null_constraint_def default_constraint_def
      get_sql_type_def parts_catalogue_def name_column_def qty_column_def)


section \<open>Properties of the Column-Matcher\<close>

lemma find_Some_first:
  "find P xs = Some x \<Longrightarrow> x \<in> set xs \<and> P x"
  by (induction xs) (auto split: if_splits)

lemma build_mapping_snoc:
  "build_mapping headers (cols @ [col]) = mapping_step headers (build_mapping headers cols) col"
  by (simp add: build_mapping_def)

lemma column_mapping_last_wins:
  "column_mapping headers cols h =
     (let ms = filter (\<lambda>col. match_column headers col = Some h) cols
      in if ms = [] then None else Some (name (last ms)))"
proof (induction cols rule: rev_induct)
  case Nil
  show ?case by (simp add: column_mapping_def build_mapping_def)
next
  case (snoc col cols)
  show ?case
  proof (cases "match_column headers col")
    case None
    then have "column_mapping headers (cols @ [col]) h = column_mapping headers cols h"
      by (simp add: column_mapping_def build_mapping_snoc mapping_step_def)
    with None snoc show ?thesis by simp
  next
    case (Some h')
    then have upd: "column_mapping headers (cols @ [col]) =
        (column_mapping headers cols)(h' \<mapsto> name col)"
      by (simp add: column_mapping_def build_mapping_snoc mapping_step_def)
    show ?thesis
    proof (cases "h' = h")
      case True
      with Some upd show ?thesis by simp
    next
      case False
      with Some upd snoc show ?thesis by simp
    qed
  qed
qed

lemma unmapped_columns:
  "snd (build_mapping headers cols) =
     map display_name (filter (\<lambda>col. match_column headers col = None) cols)"
proof (induction cols rule: rev_induct)
  case Nil
  show ?case by (simp add: build_mapping_def)
next
  case (snoc col cols)
  then show ?case
    by (cases "match_column headers col") (simp_all add: build_mapping_snoc mapping_step_def)
qed


text \<open>
  Claim C3, as the code has it. Each Column Definition is tried in order: it takes the
  first header equal to its label without regard to case, and only when there is none the
  first header that contains the label or is contained in it. The mapping is keyed by
  header, so a header goes to at most one Column Definition; it goes only to a Column
  Definition that matched it, and a header that exactly one Column Definition matched goes
  to that one. Headers are not consumed, so several Column Definitions can match one
  header; which of them holds it then is not stated here. A Column Definition that matches
  no header is reported as unmapped.
\<close>

theorem column_matcher_policy:
  "match_column headers col =
     (if list_ex (\<lambda>h. lower h = lower (display_name col)) headers
      then find (\<lambda>h. lower h = lower (display_name col)) headers
      else find (\<lambda>h. contains (lower (display_name col)) (lower h)
                      \<or> contains (lower h) (lower (display_name col))) headers)
   \<and> (match_column headers col = Some h \<longrightarrow> h \<in> set headers)
   \<and> (column_mapping headers cols h = Some n
        \<longrightarrow> (\<exists>c\<in>set cols. name c = n \<and> match_column headers c = Some h))
   \<and> ((\<forall>c\<in>set cols. match_column headers c \<noteq> Some h)
        \<longrightarrow> column_mapping headers cols h = None)
   \<and> (col \<in> set cols \<and> match_column headers col = Some h
        \<and> (\<forall>c\<in>set cols. match_column headers c = Some h \<longrightarrow> c = col)
        \<longrightarrow> column_mapping headers cols h = Some (name col))
   \<and> snd (build_mapping headers cols) =
       map display_name (filter (\<lambda>col. match_column headers col = None) cols)"
proof (intro conjI impI)
  let ?ms = "filter (\<lambda>c. match_column headers c = Some h) cols"
  have last_ms: "last ?ms \<in> set cols \<and> match_column headers (last ?ms) = Some h" if "?ms \<noteq> []"
    using last_in_set [OF that] by simp
  show "match_column headers col =
     (if list_ex (\<lambda>h. lower h = lower (display_name col)) headers
      then find (\<lambda>h. lower h = lower (display_name col)) headers
      else find (\<lambda>h. contains (lower (display_name col)) (lower h)
                      \<or> contains (lower h) (lower (display_name col))) headers)"
    by (auto simp: match_column_def list_ex_iff find_None_iff split: option.splits
        dest: find_Some_first)
  show "h \<in> set headers" if "match_column headers col = Some h"
    using that by (auto simp: match_column_def split: option.splits dest: find_Some_first)
  show "\<exists>c\<in>set cols. name c = n \<and> match_column headers c = Some h"
    if "column_mapping headers cols h = Some n"
  proof -
    from that have "?ms \<noteq> []" "n = name (last ?ms)"
      by (auto simp: column_mapping_last_wins Let_def split: if_splits)
    with last_ms show ?thesis by blast
  qed
  show "column_mapping headers cols h = None"
    if "\<forall>c\<in>set cols. match_column headers c \<noteq> Some h"
  proof -
    from that have "?ms = []" by (simp add: filter_empty_conv)
    then show ?thesis by (simp add: column_mapping_last_wins)
  qed
  show "column_mapping headers cols h = Some (name col)"
    if "col \<in> set cols \<and> match_column headers col = Some h
        \<and> (\<forall>c\<in>set cols. match_column headers c = Some h \<longrightarrow> c = col)"
  proof -
    from that have ne: "?ms \<noteq> []" by (auto simp: filter_empty_conv)
    with last_ms that have "last ?ms = col" by blast
    with ne show ?thesis by (simp add: column_mapping_last_wins)
  qed
  show "snd (build_mapping headers cols) =
       map display_name (filter (\<lambda>col. match_column headers col = None) cols)"
    by (rule unmapped_columns)
qed

lemma match_cost: "match_column [''Cost''] cost_column = Some ''Cost''"
  by code_simp

lemma match_unit_cost: "match_column [''Cost''] unit_cost_column = Some ''Cost''"
  by code_simp

theorem column_matcher_policy_witness:
  "column_mapping [''Cost''] [cost_column] ''Cost'' = Some ''cost''"
proof -
  have "cost_column \<in> set [cost_column] \<and> match_column [''Cost''] cost_column = Some ''Cost''
        \<and> (\<forall>c\<in>set [cost_column]. match_column [''Cost''] c = Some ''Cost'' \<longrightarrow> c = cost_column)"
    by (simp add: match_cost)
  from column_matcher_policy [THEN conjunct2, THEN conjunct2, THEN conjunct2, THEN conjunct2,
      THEN conjunct1, rule_format, OF this]
  show ?thesis
    by (simp add: cost_column_def)
qed

text \<open>
  Against C3 as stated: the header \<open>Cost\<close> is matched exactly by the first column and
  then taken over by the second, whose label contains it.
\<close>

theorem later_column_displaces_match:
  "match_column [''Cost''] cost_column = Some ''Cost''
   \<and> column_mapping [''Cost''] [cost_column] ''Cost'' = Some ''cost''
   \<and> column_mapping [''Cost''] [cost_column, unit_cost_column] ''Cost'' = Some ''unit_cost''"
  by (simp add: match_cost match_unit_cost column_mapping_def build_mapping_def mapping_step_def)
     (simp add: unit_cost_column_def cost_column_def)

section \<open>Properties of the Catalogue Store\<close>











lemma add_item_Inr:
  assumes "catalogue_config st = Some config" "add_item rd eng now st d = Inr (i, st')"
  shows "\<exists>ss. stored_values rd eng (map (\<lambda>col. (raw_value d col, col)) (columns config)) = Inr ss
            \<and> \<not> violates_not_null (columns config) ss
            \<and> i = last_id st + 1
            \<and> st' = st\<lparr>items := items st @
                         [\<lparr>item_id = i, vals = zip (map name (columns config)) ss,
                           created_date = now, modified_date = now\<rparr>],
                       last_id := i\<rparr>"
  using assms by (auto simp: add_item_def Let_def split: sum.splits if_splits)

lemma update_item_True:
  assumes "catalogue_config st = Some config" "update_item rd eng now st iid d = Inr (True, st')"
  shows "\<exists>ss. stored_values rd eng (supplied d (columns config)) = Inr ss
            \<and> list_ex (\<lambda>r. item_id r = iid) (items st)
            \<and> \<not> violates_not_null (map snd (supplied d (columns config))) ss
            \<and> st' = st\<lparr>items :=
                   map (\<lambda>r. if item_id r = iid
                            then r\<lparr>vals := assign (zip (map (name \<circ> snd) (supplied d (columns config))) ss) (vals r),
                                   modified_date := now\<rparr>
                            else r) (items st)\<rparr>"
  using assms by (auto simp: update_item_def Let_def split: sum.splits if_splits)

lemma update_item_False:
  assumes "catalogue_config st = Some config" "update_item rd eng now st iid d = Inr (False, st')"
  shows "st' = st \<and> \<not> list_ex (\<lambda>r. item_id r = iid) (items st)"
  using assms by (auto simp: update_item_def Let_def split: sum.splits if_splits)







lemma supplied_eq:
  "supplied d cols = map (\<lambda>col. (the (d (name col)), col)) (filter (\<lambda>col. d (name col) \<noteq> None) cols)"
  by (induction cols) (auto simp: supplied_def List.map_filter_def)

lemma supplied_columns:
  "map snd (supplied d cols) = filter (\<lambda>col. d (name col) \<noteq> None) cols"
  by (simp add: supplied_eq comp_def)































text \<open>
  Claim C9, as the code has it. For a configuration whose table statement the engine
  accepts, \<open>create_catalogue_structure\<close> returns \<open>True\<close> and leaves, from any state, that
  configuration active and stored and the row table empty; a second call with the same
  configuration does so again, and with the same current time leaves the very same state.
  For a configuration whose statement the engine refuses the call returns \<open>False\<close> and
  leaves configuration and rows as they were.
\<close>

theorem create_catalogue_structure_resets:
  "(accepts eng (generate_table_sql (columns config)) \<longrightarrow>
       create_catalogue_structure eng now st config =
         (True, \<lparr>catalogue_config = Some config, stored_config = Some (config, now, now),
                 items = [], last_id = 0\<rparr>)
     \<and> create_catalogue_structure eng now'
         (snd (create_catalogue_structure eng now st config)) config =
         (True, \<lparr>catalogue_config = Some config, stored_config = Some (config, now', now'),
                 items = [], last_id = 0\<rparr>)
     \<and> snd (create_catalogue_structure eng now
         (snd (create_catalogue_structure eng now st config)) config)
         = snd (create_catalogue_structure eng now st config)
     \<and> get_all_items (snd (create_catalogue_structure eng now st config)) = []
     \<and> get_all_items (snd (create_catalogue_structure eng now'
          (snd (create_catalogue_structure eng now st config)) config)) = []
     \<and> load_catalogue_config (snd (create_catalogue_structure eng now st config)) =
         (Some config, snd (create_catalogue_structure eng now st config)))
   \<and> (\<not> accepts eng (generate_table_sql (columns config)) \<longrightarrow>
       create_catalogue_structure eng now st config = (False, st))"
  by (simp add: create_catalogue_structure_def get_all_items_def load_catalogue_config_def)

lemma parts_table_accepted:
  "accepts sample_engine (generate_table_sql (columns parts_catalogue))"
  by (simp add: sample_engine_def sample_accepts_def parts_table_sql)

theorem create_catalogue_structure_resets_witness:
  "create_catalogue_structure sample_engine ''2024-01-01T00:00:00''
     (one_row_store parts_catalogue [(''name'', SText ''Bolt''), (''qty'', SInt 0)]) parts_catalogue
   = (True, fresh_store parts_catalogue)"
  using create_catalogue_structure_resets [of sample_engine parts_catalogue
      "''2024-01-01T00:00:00''"
      "one_row_store parts_catalogue [(''name'', SText ''Bolt''), (''qty'', SInt 0)]"]
    parts_table_accepted
  by (simp add: fresh_store_def)

text \<open>
  Against C9 as stated: a catalogue with the one column \<open>remark\<close>, whose declared default
  \<open>it's\<close> holds an apostrophe. The statement leaves a string literal open, the engine
  refuses it, and the call returns \<open>False\<close>: the store keeps the earlier configuration and
  its row.
\<close>

lemma remark_table_sql:
  "generate_table_sql (columns remark_catalogue) =
     ''CREATE TABLE catalogue_items ('' @ [CHR 0x0A]
     @ ''    id INTEGER PRIMARY KEY AUTOINCREMENT,'' @ [CHR 0x0A]
     @ ''    remark TEXT  DEFAULT '' @ [CHR 0x27] @ ''it'' @ [CHR 0x27] @ ''s'' @ [CHR 0x27]
     @ '','' @ [CHR 0x0A]
     @ ''    created_date TEXT,'' @ [CHR 0x0A]
     @ ''    modified_date TEXT'' @ [CHR 0x0A]
     @ '')''"
  by (simp add: table_sql_text column_line_def null_constraint_def default_constraint_def
      get_sql_type_def remark_catalogue_def remark_column_def)

theorem open_literal_keeps_old_structure:
  "create_catalogue_structure sample_engine ''2024-01-05T00:00:00''
     (one_row_store parts_catalogue [(''name'', SText ''Bolt''), (''qty'', SInt 0)])
     remark_catalogue
   = (False, one_row_store parts_catalogue [(''name'', SText ''Bolt''), (''qty'', SInt 0)])
   \<and> catalogue_config (one_row_store parts_catalogue [(''name'', SText ''Bolt''), (''qty'', SInt 0)])
     = Some parts_catalogue
   \<and> length (get_all_items
       (one_row_store parts_catalogue [(''name'', SText ''Bolt''), (''qty'', SInt 0)])) = 1"
  by (simp add: create_catalogue_structure_def sample_engine_def sample_accepts_def
      remark_table_sql)
     (simp add: one_row_store_def get_all_items_def)

text \<open>
  No row has an id above the largest id given out: the operations keep it so, which is
  what makes the id returned by \<open>add_item\<close> new.
\<close>

lemma ids_bounded_create:
  "list_all (\<lambda>r. item_id r \<le> last_id (snd (create_catalogue_structure eng now st config)))
     (items (snd (create_catalogue_structure eng now st config)))"
  if "list_all (\<lambda>r. item_id r \<le> last_id st) (items st)"
  using that by (simp add: create_catalogue_structure_def)

lemma ids_bounded_add:
  assumes "list_all (\<lambda>r. item_id r \<le> last_id st) (items st)"
    and "add_item rd eng now st d = Inr (i, st')"
  shows "list_all (\<lambda>r. item_id r \<le> last_id st') (items st')"
proof (cases "catalogue_config st")
  case None
  with assms(2) show ?thesis by (simp add: add_item_def)
next
  case (Some config)
  from add_item_Inr [OF Some assms(2)] obtain ss where
    "i = last_id st + 1"
    "st' = st\<lparr>items := items st @
                         [\<lparr>item_id = i, vals = zip (map name (columns config)) ss,
                           created_date = now, modified_date = now\<rparr>],
                       last_id := i\<rparr>"
    by blast
  with assms(1) show ?thesis
    by (fastforce simp: list_all_iff)
qed

lemma ids_bounded_update:
  assumes "list_all (\<lambda>r. item_id r \<le> last_id st) (items st)"
    and "update_item rd eng now st iid d = Inr (ok, st')"
  shows "list_all (\<lambda>r. item_id r \<le> last_id st') (items st')"
proof (cases "catalogue_config st")
  case None
  with assms show ?thesis by (simp add: update_item_def)
next
  case (Some config)
  show ?thesis
  proof (cases ok)
    case False
    with assms(2) have "update_item rd eng now st iid d = Inr (False, st')" by simp
    from update_item_False [OF Some this] assms(1) show ?thesis by simp
  next
    case True
    with assms(2) have "update_item rd eng now st iid d = Inr (True, st')" by simp
    from update_item_True [OF Some this] obtain ss where
      "st' = st\<lparr>items :=
                   map (\<lambda>r. if item_id r = iid
                            then r\<lparr>vals := assign (zip (map (name \<circ> snd) (supplied d (columns config))) ss) (vals r),
                                   modified_date := now\<rparr>
                            else r) (items st)\<rparr>"
      by blast
    with assms(1) show ?thesis
      by (auto simp: list_all_iff)
  qed
qed

end
